theory Spec2Isabelle
  imports Main "HOL-Library.Word" "HOL-Library.AList"
begin

unbundle bit_operations_syntax

section \<open>Data model\<close>

text \<open>
  Stream identifiers and the frame counter are Go \<^verbatim>\<open>uint32\<close> values: 32-bit words whose
  addition wraps. Payloads are byte slices. An \<^verbatim>\<open>http.Header\<close> is a Go
  \<^verbatim>\<open>map[string][]string\<close>.
\<close>

type_synonym u32 = "32 word"
type_synonym bytes = "8 word list"
type_synonym header = "string \<rightharpoonup> string list"
type_synonym addr = nat

text \<open>
  Go errors as values. \<open>EOF\<close> is \<^verbatim>\<open>io.EOF\<close>; \<open>ErrorString\<close> is \<^verbatim>\<open>errors.New\<close> of a
  literal; the two formatted messages of \<^verbatim>\<open>session.go\<close> keep their argument.
\<close>

datatype error =
    EOF
  | ErrorString string
  | StreamAlreadyExists u32
  | NoSuchStream u32

datatype rst_status = ProtocolError | InvalidStream | RefusedStream | Cancel | InternalError

text \<open>
  The frame variants the two source files construct or inspect. Control frames carry the
  flags byte of their \<^verbatim>\<open>ControlFrameHeader\<close>.
\<close>

datatype frame =
    SynStreamFrame u32 "8 word" header
  | SynReplyFrame u32 "8 word" header
  | HeadersFrame u32 "8 word" header
  | DataFrame u32 bytes
  | RstStreamFrame u32 rst_status
  | SettingsFrame
  | NoopFrame
  | PingFrame u32
  | GoAwayFrame

definition ControlFlagFin :: "8 word" where
  "ControlFlagFin = 1"

text \<open>
  Modelled from the spec: \<^verbatim>\<open>Frame.GetStreamId\<close>, whose declaration is not among the
  sources. Section 6 of the specification: every frame carries a stream ID, which is 0 for
  the session-wide kinds.
\<close>

fun GetStreamId :: "frame \<Rightarrow> u32" where
  "GetStreamId (SynStreamFrame i _ _) = i"
| "GetStreamId (SynReplyFrame i _ _) = i"
| "GetStreamId (HeadersFrame i _ _) = i"
| "GetStreamId (DataFrame i _) = i"
| "GetStreamId (RstStreamFrame i _) = i"
| "GetStreamId SettingsFrame = 0"
| "GetStreamId NoopFrame = 0"
| "GetStreamId (PingFrame _) = 0"
| "GetStreamId GoAwayFrame = 0"

text \<open>The type test \<^verbatim>\<open>frame.(*SynStreamFrame)\<close>.\<close>

fun isSynStreamFrame :: "frame \<Rightarrow> bool" where
  "isSynStreamFrame (SynStreamFrame _ _ _) = True"
| "isSynStreamFrame _ = False"

subsection \<open>The frame sink\<close>

text \<open>
  The \<^verbatim>\<open>FrameReadWriter\<close> is supplied from outside. Its write side is modelled by the
  frames it has accepted so far, oldest first, and by the results its next calls to
  \<^verbatim>\<open>WriteFrame\<close> will give, next call first; once that list is used up every write
  succeeds. A failed write leaves no frame behind.
\<close>

record framer =
  written :: "frame list"
  wresults :: "error option list"

definition WriteFrame :: "frame \<Rightarrow> framer \<Rightarrow> error option \<times> framer" where
  "WriteFrame f fr =
     (case wresults fr of
        [] \<Rightarrow> (None, fr\<lparr>written := written fr @ [f]\<rparr>)
      | None # rs \<Rightarrow> (None, fr\<lparr>written := written fr @ [f], wresults := rs\<rparr>)
      | Some e # rs \<Rightarrow> (Some e, fr\<lparr>wresults := rs\<rparr>))"

subsection \<open>Message queue, reader, writer, stream\<close>

record streamMessage =
  msg_data :: "bytes option"
  msg_headers :: "header option"

text \<open>
  Modelled from the spec: the message queue \<^verbatim>\<open>MQ\<close> (\<^verbatim>\<open>NewMQ\<close>, \<^verbatim>\<open>Send\<close>, \<^verbatim>\<open>Receive\<close>,
  \<^verbatim>\<open>Close\<close>), which is not among the sources. Section 4.1: an ordered queue; \<^verbatim>\<open>Send\<close>
  enqueues; \<^verbatim>\<open>Receive\<close> hands out the oldest message, gives the end-of-stream error once
  the queue is closed and drained, and blocks while the queue is open and empty;
  \<^verbatim>\<open>Close\<close> is idempotent. A call that blocks with no producer left never returns: it is
  the value \<open>None\<close>. \<^verbatim>\<open>StreamReader.Receive\<close> reads both fields of the message that comes
  with the error, and by section 4.2 it then returns the end-of-stream error, so the queue
  hands back a message with neither field set at that point.
\<close>

record MQ =
  mq_items :: "streamMessage list"
  mq_closed :: bool

definition NewMQ :: MQ where
  "NewMQ = \<lparr>mq_items = [], mq_closed = False\<rparr>"

definition MQ_Send :: "streamMessage \<Rightarrow> MQ \<Rightarrow> MQ" where
  "MQ_Send m q = q\<lparr>mq_items := mq_items q @ [m]\<rparr>"

definition MQ_Close :: "MQ \<Rightarrow> MQ" where
  "MQ_Close q = q\<lparr>mq_closed := True\<rparr>"

definition MQ_Receive :: "MQ \<Rightarrow> (streamMessage \<times> error option \<times> MQ) option" where
  "MQ_Receive q =
     (case mq_items q of
        m # ms \<Rightarrow> Some (m, None, q\<lparr>mq_items := ms\<rparr>)
      | [] \<Rightarrow>
          if mq_closed q
          then Some (\<lparr>msg_data = None, msg_headers = None\<rparr>, Some EOF, q)
          else None)"

record StreamReader =
  rheaders :: header
  rdata :: MQ

record StreamWriter =
  wheaders :: header
  nFramesSent :: u32

record stream =
  Id :: u32
  Input :: StreamReader
  Output :: StreamWriter
  IsMine :: bool

text \<open>
  \<^verbatim>\<open>newStream(session, id, IsMine)\<close> of the stream file; \<^verbatim>\<open>session.go\<close> calls the
  constructor as \<^verbatim>\<open>NewStream(id, local)\<close>. The back pointers (\<^verbatim>\<open>stream.session\<close>,
  \<^verbatim>\<open>reader.stream\<close>, \<^verbatim>\<open>writer.stream\<close>) are not stored: the operations below receive
  the stream and the session's frame sink as arguments.
\<close>

definition NewStream :: "u32 \<Rightarrow> bool \<Rightarrow> stream" where
  "NewStream i mine =
     \<lparr>Id = i,
      Input = \<lparr>rheaders = Map.empty, rdata = NewMQ\<rparr>,
      Output = \<lparr>wheaders = Map.empty, nFramesSent = 0\<rparr>,
      IsMine = mine\<rparr>"

section \<open>Session\<close>

text \<open>
  The stream table maps an ID to a pointer; the stream objects live in a store, since a
  stream taken out of the table is still held by its handler and its pumps. The table is
  an association list read with \<open>map_of\<close>. \<open>handler\<close> says whether a handler was supplied.
\<close>

record session =
  sframer :: framer
  Server :: bool
  lastStreamIdOut :: u32
  lastStreamIdIn :: u32
  streams :: "(u32 \<times> addr) list"
  heap :: "addr \<Rightarrow> stream"
  nextAddr :: addr
  handler :: bool
  closed :: bool

text \<open>
  \<^verbatim>\<open>NewSession\<close> without the frame pump it starts (\<open>run\<close> below); the store starts out
  with no object allocated.
\<close>

definition NewSession :: "framer \<Rightarrow> bool \<Rightarrow> bool \<Rightarrow> session" where
  "NewSession fr h server =
     \<lparr>sframer = fr, Server = server, lastStreamIdOut = 0, lastStreamIdIn = 0,
      streams = [], heap = (\<lambda>_. NewStream 0 False), nextAddr = 0,
      handler = h, closed = False\<rparr>"

definition session_WriteFrame :: "frame \<Rightarrow> session \<Rightarrow> error option \<times> session" where
  "session_WriteFrame f s =
     (case WriteFrame f (sframer s) of (e, fr) \<Rightarrow> (e, s\<lparr>sframer := fr\<rparr>))"

definition nextIdOut :: "session \<Rightarrow> u32" where
  "nextIdOut s =
     (if lastStreamIdOut s = 0 then (if Server s then 2 else 1)
      else lastStreamIdOut s + 2)"

definition nextIdIn :: "session \<Rightarrow> u32" where
  "nextIdIn s =
     (if lastStreamIdIn s = 0 then (if Server s then 1 else 2)
      else lastStreamIdIn s + 2)"

definition isLocalId :: "session \<Rightarrow> u32 \<Rightarrow> bool" where
  "isLocalId s i = (if Server s then i mod 2 = 0 else i mod 2 \<noteq> 0)"

text \<open>
  \<^verbatim>\<open>newStream\<close>: the validity check, the duplicate check, then registration. The goroutine
  it starts (the outbound pump) runs concurrently and is not part of this function's
  effect. Every failing branch returns before the session is touched.
\<close>

definition newStream :: "u32 \<Rightarrow> bool \<Rightarrow> session \<Rightarrow> (error + addr) \<times> session" where
  "newStream i local s =
     (if local \<and> (\<not> isLocalId s i \<or> i \<noteq> nextIdOut s)
        then (Inl (ErrorString ''Invalid local stream id''), s)
      else if \<not> local \<and> (isLocalId s i \<or> i \<noteq> nextIdIn s)
        then (Inl (ErrorString ''Invalid remote stream id''), s)
      else if map_of (streams s) i \<noteq> None
        then (Inl (StreamAlreadyExists i), s)
      else
        (let a = nextAddr s;
             s1 = s\<lparr>heap := (heap s)(a := NewStream i local), nextAddr := Suc a,
                    streams := AList.update i a (streams s)\<rparr>
         in (Inr a, (if local then s1\<lparr>lastStreamIdOut := i\<rparr>
                     else s1\<lparr>lastStreamIdIn := i\<rparr>))))"

definition OpenStream :: "session \<Rightarrow> (error + addr) \<times> session" where
  "OpenStream s = newStream (nextIdOut s) True s"

text \<open>
  Modelled from the spec: \<^verbatim>\<open>stream.Input.Close\<close>, which \<^verbatim>\<open>session.go\<close> calls and which is
  not among the sources. Section 4.5: \<^verbatim>\<open>CloseStream\<close> closes the reader's queue.
\<close>

definition Input_Close :: "stream \<Rightarrow> stream" where
  "Input_Close st = st\<lparr>Input := (Input st)\<lparr>rdata := MQ_Close (rdata (Input st))\<rparr>\<rparr>"

definition CloseStream :: "u32 \<Rightarrow> session \<Rightarrow> error option \<times> session" where
  "CloseStream i s =
     (case map_of (streams s) i of
        None \<Rightarrow> (Some (NoSuchStream i), s)
      | Some a \<Rightarrow>
          (None, s\<lparr>heap := (heap s)(a := Input_Close (heap s a)),
                   streams := AList.delete i (streams s)\<rparr>))"

text \<open>
  \<^verbatim>\<open>Close\<close> ranges over the keys of the table and closes each; the result of each
  \<^verbatim>\<open>CloseStream\<close> is dropped, as in the source.
\<close>

definition Close :: "session \<Rightarrow> session" where
  "Close s = fold (\<lambda>i t. snd (CloseStream i t)) (map fst (streams s)) (s\<lparr>closed := True\<rparr>)"

definition Closed :: "session \<Rightarrow> bool" where
  "Closed s = closed s"

definition NStreams :: "session \<Rightarrow> nat" where
  "NStreams s = length (remdups (map fst (streams s)))"

text \<open>
  The rest of \<^verbatim>\<open>processFrame\<close> needs two operations of the stream type that
  \<^verbatim>\<open>session.go\<close> uses and that are not among the sources: \<^verbatim>\<open>stream.Input.WriteFrame\<close>,
  which hands a frame to the stream's reader and may fail, and \<^verbatim>\<open>stream.Output.Closed\<close>.
  They are the parameters \<open>ingest\<close> and \<open>outClosed\<close>. The handler that is started for an
  accepted stream runs concurrently and is left out.

  \<open>processFrame_deliver\<close> is the second half of \<^verbatim>\<open>processFrame\<close>: the table lookup, the
  reset for an unknown stream, the delivery and the two tear-down branches. The result of
  writing the reset frame is dropped, as in the source.
\<close>

definition processFrame_deliver ::
  "(frame \<Rightarrow> stream \<Rightarrow> error option \<times> stream) \<Rightarrow> (stream \<Rightarrow> bool) \<Rightarrow>
   frame \<Rightarrow> u32 \<Rightarrow> session \<Rightarrow> session" where
  "processFrame_deliver ingest outClosed f streamId s =
     (case map_of (streams s) streamId of
        None \<Rightarrow> snd (session_WriteFrame (RstStreamFrame streamId ProtocolError) s)
      | Some a \<Rightarrow>
          (case ingest f (heap s a) of
             (err, st) \<Rightarrow>
               (let s1 = s\<lparr>heap := (heap s)(a := st)\<rparr> in
                if err = Some EOF
                  then (if outClosed st then snd (CloseStream streamId s1) else s1)
                else if err \<noteq> None then snd (CloseStream streamId s1)
                else s1)))"

definition processFrame ::
  "(frame \<Rightarrow> stream \<Rightarrow> error option \<times> stream) \<Rightarrow> (stream \<Rightarrow> bool) \<Rightarrow>
   frame \<Rightarrow> session \<Rightarrow> session" where
  "processFrame ingest outClosed f s =
     (let streamId = GetStreamId f in
      if streamId \<noteq> 0 then
        (if isSynStreamFrame f then
           (case newStream streamId False s of
              (Inl err, s1) \<Rightarrow>
                snd (session_WriteFrame (RstStreamFrame streamId ProtocolError) s1)
            | (Inr a, s1) \<Rightarrow> processFrame_deliver ingest outClosed f streamId s1)
         else processFrame_deliver ingest outClosed f streamId s)
      else s)"

text \<open>
  \<^verbatim>\<open>run\<close>. The results of the successive calls to \<^verbatim>\<open>ReadFrame\<close> are a list, a frame
  or an error each; when the list is used up the next read blocks for good and \<open>run\<close>
  does not return, which is the value \<open>None\<close>. When it returns, it returns an error and
  leaves a session behind.
\<close>

fun run_loop ::
  "(frame \<Rightarrow> stream \<Rightarrow> error option \<times> stream) \<Rightarrow> (stream \<Rightarrow> bool) \<Rightarrow>
   (error + frame) list \<Rightarrow> session \<Rightarrow> (error \<times> session) option" where
  "run_loop ingest outClosed [] s = None"
| "run_loop ingest outClosed (Inl err # rs) s = Some (err, Close s)"
| "run_loop ingest outClosed (Inr rawframe # rs) s =
     run_loop ingest outClosed rs (processFrame ingest outClosed rawframe s)"

definition run ::
  "(frame \<Rightarrow> stream \<Rightarrow> error option \<times> stream) \<Rightarrow> (stream \<Rightarrow> bool) \<Rightarrow>
   (error + frame) list \<Rightarrow> session \<Rightarrow> (error \<times> session) option" where
  "run ingest outClosed reads s =
     (if \<not> handler s then
        (case session_WriteFrame GoAwayFrame s of
           (Some err, s1) \<Rightarrow> Some (err, s1)
         | (None, s1) \<Rightarrow> run_loop ingest outClosed reads s1)
      else run_loop ingest outClosed reads s)"

section \<open>Stream reader\<close>

text \<open>
  \<^verbatim>\<open>http.Header.Get\<close> looks the key up in its canonical form and returns the first value
  stored there, or the empty string. The canonical form is computed by the standard
  library; it is the parameter \<open>canon\<close>.
\<close>

definition Header_Get :: "(string \<Rightarrow> string) \<Rightarrow> header \<Rightarrow> string \<Rightarrow> string" where
  "Header_Get canon h key =
     (case h (canon key) of None \<Rightarrow> [] | Some [] \<Rightarrow> [] | Some (v # _) \<Rightarrow> v)"

definition Receive ::
  "StreamReader \<Rightarrow> (bytes option \<times> header option \<times> error option \<times> StreamReader) option" where
  "Receive r =
     (case MQ_Receive (rdata r) of
        None \<Rightarrow> None
      | Some (m, err, q) \<Rightarrow> Some (msg_data m, msg_headers m, err, r\<lparr>rdata := q\<rparr>))"

definition Push :: "bytes option \<Rightarrow> header option \<Rightarrow> StreamReader \<Rightarrow> StreamReader" where
  "Push d h r = r\<lparr>rdata := MQ_Send \<lparr>msg_data = d, msg_headers = h\<rparr> (rdata r)\<rparr>"

lemma Receive_shrinks:
  "Receive r = Some (d, h, None, r') \<Longrightarrow>
   length (mq_items (rdata r')) < length (mq_items (rdata r))"
  by (auto simp: Receive_def MQ_Receive_def split: list.splits if_splits)

text \<open>
  \<^verbatim>\<open>WaitForHeader\<close>: while the header reads as empty, receive and drop a message. The
  result is the pair the Go function returns, with the reader as it is left.
\<close>

function WaitForHeader ::
  "(string \<Rightarrow> string) \<Rightarrow> string \<Rightarrow> StreamReader \<Rightarrow>
   ((string \<times> error option) \<times> StreamReader) option" where
  "WaitForHeader canon key r =
     (if Header_Get canon (rheaders r) key = [] then
        (case Receive r of
           None \<Rightarrow> None
         | Some (d, h, err, r') \<Rightarrow>
             (case err of
                Some e \<Rightarrow> Some (([], Some e), r')
              | None \<Rightarrow> WaitForHeader canon key r'))
      else Some ((Header_Get canon (rheaders r) key, None), r))"
  by pat_completeness auto
termination
  by (relation "measure (\<lambda>(canon, key, r). length (mq_items (rdata r)))")
     (auto simp: Receive_shrinks)

section \<open>Stream writer\<close>

text \<open>
  The writer's methods act on the stream that owns the writer (for \<^verbatim>\<open>writer.stream.Id\<close>
  and \<^verbatim>\<open>writer.stream.IsMine\<close>) and on the frame sink of its session
  (\<^verbatim>\<open>writer.stream.session.WriteFrame\<close>); each returns its error, the stream and the sink.
\<close>

definition writeFrame :: "frame \<Rightarrow> stream \<Rightarrow> framer \<Rightarrow> error option \<times> stream \<times> framer" where
  "writeFrame f st fr =
     (case WriteFrame f fr of
        (Some err, fr1) \<Rightarrow> (Some err, st, fr1)
      | (None, fr1) \<Rightarrow>
          (None, st\<lparr>Output := (Output st)\<lparr>nFramesSent := nFramesSent (Output st) + 1\<rparr>\<rparr>, fr1))"

definition SendHeaders :: "bool \<Rightarrow> stream \<Rightarrow> framer \<Rightarrow> error option \<times> stream \<times> framer" where
  "SendHeaders final st fr =
     (let flags = (if final then 0 OR ControlFlagFin else 0) in
      if nFramesSent (Output st) = 0 then
        (if IsMine st
         then writeFrame (SynStreamFrame (Id st) flags (wheaders (Output st))) st fr
         else writeFrame (SynReplyFrame (Id st) flags (wheaders (Output st))) st fr)
      else writeFrame (HeadersFrame (Id st) flags (wheaders (Output st))) st fr)"

text \<open>
  \<^verbatim>\<open>Send\<close>: the result of the header send is not looked at, and the data frame goes to
  the session's \<^verbatim>\<open>WriteFrame\<close> directly, not through the writer's \<^verbatim>\<open>writeFrame\<close>.
\<close>

definition Send :: "bytes \<Rightarrow> stream \<Rightarrow> framer \<Rightarrow> error option \<times> stream \<times> framer" where
  "Send payload st fr =
     (case (if nFramesSent (Output st) = 0
            then (case SendHeaders False st fr of (_, st1, fr1) \<Rightarrow> (st1, fr1))
            else (st, fr)) of
        (st1, fr1) \<Rightarrow>
          (case WriteFrame (DataFrame (Id st1) payload) fr1 of
             (err, fr2) \<Rightarrow> (err, st1, fr2)))"

text \<open>
  \<^verbatim>\<open>SendLines\<close>. The line source is the list of results its successive \<^verbatim>\<open>ReadLine\<close>
  calls give, a line and an error each; past the end of the list \<^verbatim>\<open>ReadLine\<close> gives
  \<^verbatim>\<open>io.EOF\<close>. When \<^verbatim>\<open>Send\<close> fails the source returns the variable \<^verbatim>\<open>err\<close>, which holds
  the result of the read.
\<close>

fun SendLines ::
  "(bytes \<times> error option) list \<Rightarrow> stream \<Rightarrow> framer \<Rightarrow> error option \<times> stream \<times> framer" where
  "SendLines [] st fr = (None, st, fr)"
| "SendLines ((line, err) # lines) st fr =
     (if err = Some EOF then (None, st, fr)
      else if err \<noteq> None then (err, st, fr)
      else
        (case Send line st fr of
           (serr, st1, fr1) \<Rightarrow>
             if serr \<noteq> None then (err, st1, fr1)
             else SendLines lines st1 fr1))"

section \<open>Pipe\<close>

text \<open>
  Modelled from the spec: \<^verbatim>\<open>updateHeaders\<close>, which is not among the sources. Section 3:
  later headers add or override keys and nothing is removed.
\<close>

definition updateHeaders :: "header \<Rightarrow> header \<Rightarrow> header" where
  "updateHeaders dst src = dst ++ src"

text \<open>
  \<^verbatim>\<open>Pipe\<close>: the results of \<^verbatim>\<open>SendHeaders\<close> and \<^verbatim>\<open>Send\<close> are not looked at. The result is
  the error returned, with the reader, the writer's stream and the sink as they are left;
  \<open>None\<close> when the reader blocks for good.
\<close>

function Pipe ::
  "StreamReader \<Rightarrow> stream \<Rightarrow> framer \<Rightarrow>
   (error option \<times> StreamReader \<times> stream \<times> framer) option" where
  "Pipe r w fr =
     (case Receive r of
        None \<Rightarrow> None
      | Some (d, h, err, r') \<Rightarrow>
          if err = Some EOF then Some (None, r', w, fr)
          else if err \<noteq> None then Some (err, r', w, fr)
          else
            (case h of
               Some hs \<Rightarrow>
                 (case SendHeaders False
                         (w\<lparr>Output := (Output w)\<lparr>wheaders :=
                               updateHeaders (wheaders (Output w)) hs\<rparr>\<rparr>) fr of
                    (_, w1, fr1) \<Rightarrow> Pipe r' w1 fr1)
             | None \<Rightarrow>
                 (case d of
                    Some payload \<Rightarrow>
                      (case Send payload w fr of (_, w1, fr1) \<Rightarrow> Pipe r' w1 fr1)
                  | None \<Rightarrow> Pipe r' w fr)))"
  by pat_completeness auto
termination
  by (relation "measure (\<lambda>(r, w, fr). length (mq_items (rdata r)))")
     (auto simp: Receive_shrinks)

section \<open>Example states\<close>

text \<open>
  Concrete sinks, sessions and readers on which the theorems below are instantiated.
  \<open>sink0\<close> accepts every frame; \<open>failing_sink\<close> refuses its first frame and
  \<open>failing_second\<close> its second. \<open>ingest_ok\<close> and \<open>never_closed\<close> are a delivery that
  always succeeds and an output side that is never closed. \<open>server1\<close> is a server that
  has accepted stream 1. \<open>wrapped_server\<close> is a server whose incoming counter has reached
  the last odd ID while stream 1 is still open, so that the next expected ID is 1 again.
\<close>

definition sink0 :: framer where
  "sink0 = \<lparr>written = [], wresults = []\<rparr>"

definition failing_sink :: framer where
  "failing_sink = \<lparr>written = [], wresults = [Some (ErrorString ''write failed'')]\<rparr>"

definition failing_second :: framer where
  "failing_second = \<lparr>written = [], wresults = [None, Some (ErrorString ''write failed'')]\<rparr>"

definition ingest_ok :: "frame \<Rightarrow> stream \<Rightarrow> error option \<times> stream" where
  "ingest_ok f st = (None, st)"

definition never_closed :: "stream \<Rightarrow> bool" where
  "never_closed st = False"

definition client0 :: session where
  "client0 = NewSession sink0 True False"

definition server0 :: session where
  "server0 = NewSession sink0 True True"

definition server1 :: session where
  "server1 = snd (newStream 1 False server0)"

definition wrapped_server :: session where
  "wrapped_server =
     server0\<lparr>lastStreamIdIn := 4294967295, streams := [(1, 0)],
             heap := (heap server0)(0 := NewStream 1 False), nextAddr := 1\<rparr>"

definition status_reader :: StreamReader where
  "status_reader =
     \<lparr>rheaders = [''Status'' \<mapsto> [''200'']],
      rdata = \<lparr>mq_items = [\<lparr>msg_data = Some [120], msg_headers = None\<rparr>],
               mq_closed = False\<rparr>\<rparr>"

definition pipe_reader :: StreamReader where
  "pipe_reader =
     \<lparr>rheaders = Map.empty,
      rdata = \<lparr>mq_items = [\<lparr>msg_data = None, msg_headers = Some [''A'' \<mapsto> [''1'']]\<rparr>,
                           \<lparr>msg_data = Some [120], msg_headers = None\<rparr>,
                           \<lparr>msg_data = Some [121], msg_headers = None\<rparr>],
               mq_closed = True\<rparr>\<rparr>"

lemma server1_eq:
  "server1 = server0\<lparr>heap := (heap server0)(0 := NewStream 1 False), nextAddr := 1,
                     streams := [(1, 0)], lastStreamIdIn := 1\<rparr>"
  by (simp add: server1_def newStream_def Let_def server0_def NewSession_def isLocalId_def
                nextIdIn_def)

lemma wrapped_server_nextIdIn: "nextIdIn wrapped_server = 1"
  by (simp add: wrapped_server_def server0_def NewSession_def nextIdIn_def)

section \<open>Stream IDs and registration\<close>

lemma isLocalId_zero: "isLocalId s 0 = Server s"
  by (simp add: isLocalId_def)

lemma newStream_Inl: "fst (newStream i l s) = Inl e \<Longrightarrow> snd (newStream i l s) = s"
  by (auto simp: newStream_def Let_def split: if_splits)

lemma newStream_local_ok:
  assumes "fst (newStream n True s) = Inr a"
  shows "lastStreamIdOut (snd (newStream n True s)) = n"
    and "Server (snd (newStream n True s)) = Server s"
    and "isLocalId s n" and "n = nextIdOut s" and "map_of (streams s) n = None"
  using assms by (auto simp: newStream_def Let_def split: if_splits)

text \<open>
  C1. On a new session the allocator \<open>nextIdOut\<close> returns 1 for a client and 2 for a
  server. When a stream with ID \<open>n\<close> has been registered as locally opened, \<open>n\<close> was the
  allocator's value and its next value is \<open>n + 2\<close>; a registration that fails leaves the
  allocator's value as it was. The allocator itself only reads the session. The sum is
  the \<^verbatim>\<open>uint32\<close> sum of the source.
\<close>

theorem nextIdOut_steps:
  "nextIdOut (NewSession fr h server) = (if server then 2 else 1) \<and>
   (fst (newStream n True s) = Inr a \<longrightarrow>
      nextIdOut s = n \<and> nextIdOut (snd (newStream n True s)) = n + 2) \<and>
   (fst (newStream n True s) = Inl e \<longrightarrow>
      nextIdOut (snd (newStream n True s)) = nextIdOut s)"
proof (intro conjI impI)
  show "nextIdOut (NewSession fr h server) = (if server then 2 else 1)"
    by (simp add: nextIdOut_def NewSession_def)
next
  assume ok: "fst (newStream n True s) = Inr a"
  show "nextIdOut s = n" using newStream_local_ok(4)[OF ok] by simp
  show "nextIdOut (snd (newStream n True s)) = n + 2"
  proof (cases "n = 0")
    case True
    with newStream_local_ok(3)[OF ok] have "Server s" by (simp add: isLocalId_zero)
    with True newStream_local_ok(1,2)[OF ok] show ?thesis by (simp add: nextIdOut_def)
  next
    case False
    with newStream_local_ok(1)[OF ok] show ?thesis by (simp add: nextIdOut_def)
  qed
next
  assume "fst (newStream n True s) = Inl e"
  then show "nextIdOut (snd (newStream n True s)) = nextIdOut s"
    by (simp add: newStream_Inl)
qed

theorem nextIdOut_steps_witness:
  "nextIdOut client0 = 1 \<and> fst (newStream 1 True client0) = Inr 0 \<and>
   nextIdOut (snd (newStream 1 True client0)) = 3 \<and>
   fst (newStream 2 True client0) = Inl (ErrorString ''Invalid local stream id'') \<and>
   nextIdOut (snd (newStream 2 True client0)) = 1"
proof -
  have ok: "fst (newStream 1 True client0) = Inr 0"
    by (simp add: client0_def newStream_def NewSession_def isLocalId_def nextIdOut_def Let_def)
  have bad: "fst (newStream 2 True client0) = Inl (ErrorString ''Invalid local stream id'')"
    by (simp add: client0_def newStream_def NewSession_def isLocalId_def nextIdOut_def Let_def)
  show ?thesis
    using nextIdOut_steps[of sink0 True False 1 client0 0]
          nextIdOut_steps[of sink0 True False 2 client0 _ "ErrorString ''Invalid local stream id''"]
          ok bad
    by (simp add: client0_def)
qed

text \<open>
  C9. Registering a stream under an ID that is already in the stream table fails with an
  error and returns the session as it was: the table, \<open>lastStreamIdOut\<close> and
  \<open>lastStreamIdIn\<close> are unchanged.
\<close>

theorem newStream_duplicate:
  "map_of (streams s) i \<noteq> None \<Longrightarrow>
   (\<exists>e. fst (newStream i local s) = Inl e) \<and>
   snd (newStream i local s) = s \<and>
   streams (snd (newStream i local s)) = streams s \<and>
   lastStreamIdOut (snd (newStream i local s)) = lastStreamIdOut s \<and>
   lastStreamIdIn (snd (newStream i local s)) = lastStreamIdIn s"
  by (auto simp: newStream_def)

theorem newStream_duplicate_witness:
  "map_of (streams server1) 1 \<noteq> None \<and>
   newStream 1 False server1 = (Inl (ErrorString ''Invalid remote stream id''), server1) \<and>
   map_of (streams wrapped_server) 1 \<noteq> None \<and>
   newStream 1 False wrapped_server = (Inl (StreamAlreadyExists 1), wrapped_server)"
proof -
  have r1: "map_of (streams server1) 1 \<noteq> None" by (simp add: server1_eq)
  have r2: "map_of (streams wrapped_server) 1 \<noteq> None" by (simp add: wrapped_server_def)
  have e1: "fst (newStream 1 False server1) = Inl (ErrorString ''Invalid remote stream id'')"
    by (simp add: newStream_def server1_eq nextIdIn_def)
  have e2: "fst (newStream 1 False wrapped_server) = Inl (StreamAlreadyExists 1)"
    using wrapped_server_nextIdIn
    by (simp add: newStream_def isLocalId_def wrapped_server_def server0_def NewSession_def)
  show ?thesis
    using newStream_duplicate[OF r1, of False] newStream_duplicate[OF r2, of False] r1 r2 e1 e2
    by (simp add: prod_eq_iff)
qed

section \<open>Closing streams and the session\<close>

lemma Input_Close_closed: "mq_closed (rdata (Input (Input_Close st)))"
  by (simp add: Input_Close_def MQ_Close_def)

lemma CloseStream_streams:
  "streams (snd (CloseStream i s)) = AList.delete i (streams s)"
  by (auto simp: CloseStream_def AList.delete_id map_of_eq_None_iff split: option.splits)

lemma CloseStream_closed: "closed (snd (CloseStream i s)) = closed s"
  by (simp add: CloseStream_def split: option.splits)

lemma CloseStream_keeps_closed:
  "mq_closed (rdata (Input (heap s a))) \<Longrightarrow>
   mq_closed (rdata (Input (heap (snd (CloseStream i s)) a)))"
  by (simp add: CloseStream_def Input_Close_closed split: option.splits)

lemma CloseStream_closes:
  "map_of (streams s) i = Some a \<Longrightarrow>
   mq_closed (rdata (Input (heap (snd (CloseStream i s)) a)))"
  by (simp add: CloseStream_def Input_Close_closed)

lemma CloseStream_other:
  "j \<noteq> i \<Longrightarrow> map_of (streams (snd (CloseStream i s))) j = map_of (streams s) j"
  by (simp add: CloseStream_streams)


text \<open>
  C6. \<open>CloseStream i\<close> on a session where \<open>i\<close> is not registered returns an error and
  the session as it was. Where \<open>i\<close> is registered, it returns no error, the queue of that
  stream's reader is closed, \<open>i\<close> is gone from the table and every other entry stays; a
  second \<open>CloseStream i\<close> then returns an error.
\<close>

theorem CloseStream_once:
  "(map_of (streams s) i = None \<longrightarrow> CloseStream i s = (Some (NoSuchStream i), s)) \<and>
   (map_of (streams s) i = Some a \<longrightarrow>
      fst (CloseStream i s) = None \<and>
      mq_closed (rdata (Input (heap (snd (CloseStream i s)) a))) \<and>
      map_of (streams (snd (CloseStream i s))) = (map_of (streams s))(i := None) \<and>
      fst (CloseStream i (snd (CloseStream i s))) = Some (NoSuchStream i))"
  by (simp add: CloseStream_def Input_Close_closed delete_conv')

theorem CloseStream_once_witness:
  "CloseStream 1 server0 = (Some (NoSuchStream 1), server0) \<and>
   map_of (streams server1) 1 = Some 0 \<and>
   fst (CloseStream 1 server1) = None \<and>
   mq_closed (rdata (Input (heap (snd (CloseStream 1 server1)) 0))) \<and>
   map_of (streams (snd (CloseStream 1 server1))) 1 = None \<and>
   fst (CloseStream 1 (snd (CloseStream 1 server1))) = Some (NoSuchStream 1)"
proof -
  have a: "map_of (streams server0) 1 = None"
    by (simp add: server0_def NewSession_def)
  have b: "map_of (streams server1) 1 = Some 0"
    by (simp add: server1_eq)
  show ?thesis
    using CloseStream_once[of server0 1 0] CloseStream_once[of server1 1 0] a b
    by simp
qed

lemma fold_CloseStream_closed:
  "closed (fold (\<lambda>i t. snd (CloseStream i t)) ks s) = closed s"
  by (induction ks arbitrary: s) (simp_all add: CloseStream_closed)

lemma fold_CloseStream_streams:
  "fst ` set (streams s) \<subseteq> set ks \<Longrightarrow>
   streams (fold (\<lambda>i t. snd (CloseStream i t)) ks s) = []"
proof (induction ks arbitrary: s)
  case Nil
  then show ?case by simp
next
  case (Cons k ks)
  have "fst ` set (streams (snd (CloseStream k s))) \<subseteq> set ks"
  proof -
    have "fst ` set (AList.delete k (streams s)) \<subseteq> fst ` set (streams s) - {k}"
      using delete_notin_dom[of k "streams s"] dom_delete_subset[of k "streams s"] by blast
    with Cons.prems show ?thesis unfolding CloseStream_streams by fastforce
  qed
  then show ?case using Cons.IH by simp
qed

lemma fold_CloseStream_heap:
  "(i \<in> set ks \<and> map_of (streams s) i = Some a) \<or> mq_closed (rdata (Input (heap s a))) \<Longrightarrow>
   mq_closed (rdata (Input (heap (fold (\<lambda>i t. snd (CloseStream i t)) ks s) a)))"
proof (induction ks arbitrary: s)
  case Nil
  then show ?case by simp
next
  case (Cons k ks)
  let ?s = "snd (CloseStream k s)"
  have "(i \<in> set ks \<and> map_of (streams ?s) i = Some a) \<or> mq_closed (rdata (Input (heap ?s a)))"
  proof (cases "mq_closed (rdata (Input (heap s a)))")
    case True
    then show ?thesis by (simp add: CloseStream_keeps_closed)
  next
    case False
    with Cons.prems have in_ks: "i \<in> set (k # ks)" and reg: "map_of (streams s) i = Some a"
      by auto
    show ?thesis
    proof (cases "i = k")
      case True
      with reg show ?thesis by (simp add: CloseStream_closes)
    next
      case False
      with in_ks reg show ?thesis by (simp add: CloseStream_other)
    qed
  qed
  then show ?case using Cons.IH by simp
qed

lemma Close_closed: "closed (Close s)"
  by (simp add: Close_def fold_CloseStream_closed)

lemma Close_streams: "streams (Close s) = []"
  by (simp add: Close_def fold_CloseStream_streams)

lemma Close_heap:
  assumes "map_of (streams s) i = Some a"
  shows "mq_closed (rdata (Input (heap (Close s) a)))"
proof -
  from assms have "i \<in> fst ` set (streams s)"
    by (metis map_of_SomeD fst_conv image_eqI)
  with assms show ?thesis
    unfolding Close_def
    by (intro fold_CloseStream_heap[where i = i]) simp
qed

lemma run_loop_read_failure:
  "run_loop ingest oc (map Inr fs @ Inl e # rest) s =
   Some (e, Close (fold (processFrame ingest oc) fs s))"
  by (induction fs arbitrary: s) simp_all

text \<open>
  C7. Let the pump reach its loop (a handler was supplied, or the go-away frame was
  written), let the transport deliver the frames \<open>fs\<close> and then fail with \<open>e\<close>, and let
  \<open>t\<close> be the session after the frames \<open>fs\<close> have been processed. Then \<open>run\<close> returns, its
  result is the error \<open>e\<close>, and it leaves the session \<open>Close t\<close>: the closed flag is set,
  the table is empty, and the reader queue of every stream registered in \<open>t\<close> is closed.
\<close>

theorem run_read_failure:
  assumes "handler s \<or> fst (session_WriteFrame GoAwayFrame s) = None"
  shows "\<exists>t. t = fold (processFrame ingest oc) fs
                  (if handler s then s else snd (session_WriteFrame GoAwayFrame s)) \<and>
             run ingest oc (map Inr fs @ Inl e # rest) s = Some (e, Close t) \<and>
             closed (Close t) \<and> streams (Close t) = [] \<and>
             (\<forall>i a. map_of (streams t) i = Some a \<longrightarrow>
                    mq_closed (rdata (Input (heap (Close t) a))))"
proof (cases "handler s")
  case True
  then show ?thesis
    by (simp add: run_def run_loop_read_failure Close_closed Close_streams Close_heap)
next
  case False
  with assms obtain s1 where "session_WriteFrame GoAwayFrame s = (None, s1)"
    by (cases "session_WriteFrame GoAwayFrame s") auto
  with False show ?thesis
    by (simp add: run_def run_loop_read_failure Close_closed Close_streams Close_heap)
qed

theorem run_read_failure_witness:
  "run ingest_ok never_closed
       [Inr (SynStreamFrame 1 0 Map.empty), Inl (ErrorString ''connection reset'')] server0 =
     Some (ErrorString ''connection reset'', Close server1) \<and>
   map_of (streams server1) 1 = Some 0 \<and>
   closed (Close server1) \<and> streams (Close server1) = [] \<and>
   mq_closed (rdata (Input (heap (Close server1) 0)))"
proof -
  have h: "handler server0 \<or> fst (session_WriteFrame GoAwayFrame server0) = None"
    by (simp add: server0_def NewSession_def)
  have hs: "handler server0" by (simp add: server0_def NewSession_def)
  have t: "fold (processFrame ingest_ok never_closed) [SynStreamFrame 1 0 Map.empty]
             (if handler server0 then server0
              else snd (session_WriteFrame GoAwayFrame server0)) = server1"
    using hs
    by (simp add: server1_eq processFrame_def processFrame_deliver_def newStream_def Let_def
          ingest_ok_def never_closed_def server0_def NewSession_def isLocalId_def nextIdIn_def)
  have b: "map_of (streams server1) 1 = Some 0"
    by (simp add: server1_eq)
  show ?thesis
    using run_read_failure[OF h, of ingest_ok never_closed "[SynStreamFrame 1 0 Map.empty]"
            "ErrorString ''connection reset''" "[]"] b
    unfolding t by simp
qed

section \<open>Arriving open-stream frames\<close>







section \<open>Reader\<close>

text \<open>
  C10. When \<^verbatim>\<open>Headers().Get(key)\<close> is not empty on the reader's accumulated headers,
  \<open>WaitForHeader\<close> returns at once with that value and no error, and the reader, its queue
  included, is as before: no message is consumed.
\<close>

theorem WaitForHeader_present:
  "Header_Get canon (rheaders r) key \<noteq> [] \<Longrightarrow>
   WaitForHeader canon key r = Some ((Header_Get canon (rheaders r) key, None), r)"
  by simp

theorem WaitForHeader_present_witness:
  "Header_Get id (rheaders status_reader) ''Status'' \<noteq> [] \<and>
   WaitForHeader id ''Status'' status_reader = Some ((''200'', None), status_reader)"
proof -
  have g: "Header_Get id (rheaders status_reader) ''Status'' = ''200''"
    by (simp add: Header_Get_def status_reader_def)
  then have ne: "Header_Get id (rheaders status_reader) ''Status'' \<noteq> []" by simp
  from WaitForHeader_present[OF ne] g ne show ?thesis by simp
qed

lemma Receive_item:
  "mq_items (rdata r) = m # ms \<Longrightarrow>
   Receive r = Some (msg_data m, msg_headers m, None, r\<lparr>rdata := (rdata r)\<lparr>mq_items := ms\<rparr>\<rparr>)"
  by (simp add: Receive_def MQ_Receive_def)

lemma Receive_drained:
  "mq_items (rdata r) = [] \<Longrightarrow> mq_closed (rdata r) \<Longrightarrow>
   Receive r = Some (None, None, Some EOF, r)"
  by (simp add: Receive_def MQ_Receive_def)

section \<open>Writer\<close>

lemma Send_accepting:
  assumes "wresults fr = []" "nFramesSent (Output w) \<noteq> 0"
  shows "Send x w fr = (None, w, fr\<lparr>written := written fr @ [DataFrame (Id w) x]\<rparr>)"
  using assms by (simp add: Send_def WriteFrame_def)

lemma SendHeaders_accepting:
  assumes "wresults fr = []"
  shows "SendHeaders False w fr =
          (None, w\<lparr>Output := (Output w)\<lparr>nFramesSent := nFramesSent (Output w) + 1\<rparr>\<rparr>,
           fr\<lparr>written := written fr @
              [if nFramesSent (Output w) = 0
               then (if IsMine w then SynStreamFrame (Id w) 0 (wheaders (Output w))
                     else SynReplyFrame (Id w) 0 (wheaders (Output w)))
               else HeadersFrame (Id w) 0 (wheaders (Output w))]\<rparr>)"
  using assms by (simp add: SendHeaders_def writeFrame_def WriteFrame_def)

text \<open>
  C3. On a stream that has sent no frame, with a sink that refuses the first frame it is
  given: the header send on its own returns the sink's error, but \<open>Send\<close> goes on after
  the failed header send, the data frame is written, and \<open>Send\<close> returns no error.
\<close>

theorem Send_ignores_header_failure:
  "SendHeaders False (NewStream 1 True) failing_sink =
     (Some (ErrorString ''write failed''), NewStream 1 True, sink0) \<and>
   Send [120] (NewStream 1 True) failing_sink =
     (None, NewStream 1 True, \<lparr>written = [DataFrame 1 [120]], wresults = []\<rparr>)"
  by (simp add: NewStream_def failing_sink_def sink0_def SendHeaders_def Send_def
                writeFrame_def WriteFrame_def)

text \<open>
  C4. On a stream that has sent no frame, with a sink that accepts every frame: one
  \<open>Send\<close> writes two frames, the opening frame and the data frame, and leaves
  \<open>nFramesSent\<close> at 1. The data frame is not counted.
\<close>

theorem Send_data_frame_not_counted:
  "Send [120] (NewStream 1 True) sink0 =
     (None, (NewStream 1 True)\<lparr>Output := \<lparr>wheaders = Map.empty, nFramesSent = 1\<rparr>\<rparr>,
      \<lparr>written = [SynStreamFrame 1 0 Map.empty, DataFrame 1 [120]], wresults = []\<rparr>)"
  by (simp add: NewStream_def sink0_def SendHeaders_def Send_def writeFrame_def WriteFrame_def)

text \<open>
  C5. With a source of two lines and a sink that accepts the opening frame and refuses the
  next one: \<open>Send\<close> of the first line returns the sink's error, and \<open>SendLines\<close> stops
  there, before the second line, but returns no error.
\<close>

theorem SendLines_drops_send_error:
  "Send [97] (NewStream 1 True) failing_second =
     (Some (ErrorString ''write failed''),
      (NewStream 1 True)\<lparr>Output := \<lparr>wheaders = Map.empty, nFramesSent = 1\<rparr>\<rparr>,
      \<lparr>written = [SynStreamFrame 1 0 Map.empty], wresults = []\<rparr>) \<and>
   SendLines [([97], None), ([98], None)] (NewStream 1 True) failing_second =
     (None,
      (NewStream 1 True)\<lparr>Output := \<lparr>wheaders = Map.empty, nFramesSent = 1\<rparr>\<rparr>,
      \<lparr>written = [SynStreamFrame 1 0 Map.empty], wresults = []\<rparr>)"
  by (simp add: NewStream_def failing_second_def SendHeaders_def Send_def
                writeFrame_def WriteFrame_def)

section \<open>Pipe\<close>

lemma Pipe_headers:
  assumes "mq_items (rdata r) = \<lparr>msg_data = d, msg_headers = Some hs\<rparr> # ms"
  shows "Pipe r w fr =
         (case SendHeaders False
                 (w\<lparr>Output := (Output w)\<lparr>wheaders := updateHeaders (wheaders (Output w)) hs\<rparr>\<rparr>) fr of
            (e, w1, fr1) \<Rightarrow> Pipe (r\<lparr>rdata := (rdata r)\<lparr>mq_items := ms\<rparr>\<rparr>) w1 fr1)"
  by (subst Pipe.simps) (simp add: Receive_item[OF assms])

lemma Pipe_data:
  assumes "mq_items (rdata r) = \<lparr>msg_data = Some x, msg_headers = None\<rparr> # ms"
  shows "Pipe r w fr =
         (case Send x w fr of
            (e, w1, fr1) \<Rightarrow> Pipe (r\<lparr>rdata := (rdata r)\<lparr>mq_items := ms\<rparr>\<rparr>) w1 fr1)"
  by (subst Pipe.simps) (simp add: Receive_item[OF assms])

lemma Pipe_drained:
  assumes "mq_items (rdata r) = []" "mq_closed (rdata r)"
  shows "Pipe r w fr = Some (None, r, w, fr)"
  by (subst Pipe.simps) (simp add: Receive_drained[OF assms])

text \<open>
  C8. Let the reader's queue hold a header message with \<open>A = 1\<close>, a data message \<open>x\<close>
  and a data message \<open>y\<close>, and be closed. Then \<open>Pipe\<close> returns, with no error and the
  queue drained, and what it has done to the writer is: merge the headers and call
  \<open>SendHeaders False\<close>, then \<open>Send x\<close>, then \<open>Send y\<close>, in this order, for every writer and
  every sink. The headers sent contain \<open>A = 1\<close>. When the sink accepts every frame and the
  frame counter does not wrap, the frames written are the header frame (open-stream,
  open-reply or headers-update, by the writer's state) and the two data frames.
\<close>

theorem Pipe_headers_then_data:
  assumes q: "rdata r =
      \<lparr>mq_items = [\<lparr>msg_data = None, msg_headers = Some [''A'' \<mapsto> [''1'']]\<rparr>,
                   \<lparr>msg_data = Some x, msg_headers = None\<rparr>,
                   \<lparr>msg_data = Some y, msg_headers = None\<rparr>],
       mq_closed = True\<rparr>"
  shows
   "Pipe r w fr =
      (case SendHeaders False
              (w\<lparr>Output := (Output w)\<lparr>wheaders :=
                    updateHeaders (wheaders (Output w)) [''A'' \<mapsto> [''1'']]\<rparr>\<rparr>) fr of
         (e1, w1, fr1) \<Rightarrow>
           (case Send x w1 fr1 of
              (e2, w2, fr2) \<Rightarrow>
                (case Send y w2 fr2 of
                   (e3, w3, fr3) \<Rightarrow>
                     Some (None, r\<lparr>rdata := \<lparr>mq_items = [], mq_closed = True\<rparr>\<rparr>, w3, fr3)))) \<and>
    updateHeaders (wheaders (Output w)) [''A'' \<mapsto> [''1'']] ''A'' = Some [''1''] \<and>
    (wresults fr = [] \<and> nFramesSent (Output w) + 1 \<noteq> 0 \<longrightarrow>
       (\<exists>r' w'. Pipe r w fr =
          Some (None, r', w',
                fr\<lparr>written := written fr @
                  [if nFramesSent (Output w) = 0
                   then (if IsMine w
                         then SynStreamFrame (Id w) 0
                                (updateHeaders (wheaders (Output w)) [''A'' \<mapsto> [''1'']])
                         else SynReplyFrame (Id w) 0
                                (updateHeaders (wheaders (Output w)) [''A'' \<mapsto> [''1'']]))
                   else HeadersFrame (Id w) 0
                          (updateHeaders (wheaders (Output w)) [''A'' \<mapsto> [''1'']]),
                   DataFrame (Id w) x, DataFrame (Id w) y]\<rparr>)))"
proof -
  let ?hs = "[''A'' \<mapsto> [''1'']] :: header"
  let ?w0 = "w\<lparr>Output := (Output w)\<lparr>wheaders := updateHeaders (wheaders (Output w)) ?hs\<rparr>\<rparr>"
  let ?m2 = "\<lparr>msg_data = Some x, msg_headers = None\<rparr>"
  let ?m3 = "\<lparr>msg_data = Some y, msg_headers = None\<rparr>"
  let ?r1 = "r\<lparr>rdata := (rdata r)\<lparr>mq_items := [?m2, ?m3]\<rparr>\<rparr>"
  let ?r2 = "?r1\<lparr>rdata := (rdata ?r1)\<lparr>mq_items := [?m3]\<rparr>\<rparr>"
  let ?r3 = "?r2\<lparr>rdata := (rdata ?r2)\<lparr>mq_items := []\<rparr>\<rparr>"
  have r3: "?r3 = r\<lparr>rdata := \<lparr>mq_items = [], mq_closed = True\<rparr>\<rparr>"
    using q by simp
  have s1: "Pipe r w fr = (case SendHeaders False ?w0 fr of (e, w1, fr1) \<Rightarrow> Pipe ?r1 w1 fr1)"
    by (rule Pipe_headers) (simp add: q)
  have s2: "\<And>w1 fr1. Pipe ?r1 w1 fr1 = (case Send x w1 fr1 of (e, w2, fr2) \<Rightarrow> Pipe ?r2 w2 fr2)"
    by (rule Pipe_data) simp
  have s3: "\<And>w2 fr2. Pipe ?r2 w2 fr2 = (case Send y w2 fr2 of (e, w3, fr3) \<Rightarrow> Pipe ?r3 w3 fr3)"
    by (rule Pipe_data) simp
  have s4: "\<And>w3 fr3. Pipe (r\<lparr>rdata := \<lparr>mq_items = [], mq_closed = True\<rparr>\<rparr>) w3 fr3 =
      Some (None, r\<lparr>rdata := \<lparr>mq_items = [], mq_closed = True\<rparr>\<rparr>, w3, fr3)"
    by (rule Pipe_drained) simp_all
  have calls: "Pipe r w fr =
      (case SendHeaders False ?w0 fr of
         (e1, w1, fr1) \<Rightarrow>
           (case Send x w1 fr1 of
              (e2, w2, fr2) \<Rightarrow>
                (case Send y w2 fr2 of
                   (e3, w3, fr3) \<Rightarrow>
                     Some (None, r\<lparr>rdata := \<lparr>mq_items = [], mq_closed = True\<rparr>\<rparr>, w3, fr3))))"
    unfolding s1 s2 s3 r3 s4 ..
  have hdr: "updateHeaders (wheaders (Output w)) ?hs ''A'' = Some [''1'']"
    by (simp add: updateHeaders_def)
  have frames: "wresults fr = [] \<and> nFramesSent (Output w) + 1 \<noteq> 0 \<longrightarrow>
       (\<exists>r' w'. Pipe r w fr =
          Some (None, r', w',
                fr\<lparr>written := written fr @
                  [if nFramesSent (Output w) = 0
                   then (if IsMine w
                         then SynStreamFrame (Id w) 0 (updateHeaders (wheaders (Output w)) ?hs)
                         else SynReplyFrame (Id w) 0 (updateHeaders (wheaders (Output w)) ?hs))
                   else HeadersFrame (Id w) 0 (updateHeaders (wheaders (Output w)) ?hs),
                   DataFrame (Id w) x, DataFrame (Id w) y]\<rparr>))"
  proof
    assume a: "wresults fr = [] \<and> nFramesSent (Output w) + 1 \<noteq> 0"
    then have acc: "wresults fr = []" and nz: "nFramesSent (Output w) + 1 \<noteq> 0" by blast+
    show "\<exists>r' w'. Pipe r w fr =
          Some (None, r', w',
                fr\<lparr>written := written fr @
                  [if nFramesSent (Output w) = 0
                   then (if IsMine w
                         then SynStreamFrame (Id w) 0 (updateHeaders (wheaders (Output w)) ?hs)
                         else SynReplyFrame (Id w) 0 (updateHeaders (wheaders (Output w)) ?hs))
                   else HeadersFrame (Id w) 0 (updateHeaders (wheaders (Output w)) ?hs),
                   DataFrame (Id w) x, DataFrame (Id w) y]\<rparr>)"
      unfolding calls using acc nz
      by (simp add: SendHeaders_accepting Send_accepting)
  qed
  from calls hdr frames show ?thesis by blast
qed

theorem Pipe_headers_then_data_witness:
  "Pipe pipe_reader (NewStream 1 True) sink0 =
     Some (None,
           pipe_reader\<lparr>rdata := \<lparr>mq_items = [], mq_closed = True\<rparr>\<rparr>,
           (NewStream 1 True)\<lparr>Output := \<lparr>wheaders = [''A'' \<mapsto> [''1'']], nFramesSent = 1\<rparr>\<rparr>,
           \<lparr>written = [SynStreamFrame 1 0 [''A'' \<mapsto> [''1'']],
                       DataFrame 1 [120], DataFrame 1 [121]],
            wresults = []\<rparr>)"
proof -
  have q: "rdata pipe_reader =
      \<lparr>mq_items = [\<lparr>msg_data = None, msg_headers = Some [''A'' \<mapsto> [''1'']]\<rparr>,
                   \<lparr>msg_data = Some [120], msg_headers = None\<rparr>,
                   \<lparr>msg_data = Some [121], msg_headers = None\<rparr>],
       mq_closed = True\<rparr>"
    by (simp add: pipe_reader_def)
  show ?thesis
    using Pipe_headers_then_data[OF q, of "NewStream 1 True" sink0]
    by (simp add: NewStream_def sink0_def SendHeaders_def Send_def writeFrame_def
                  WriteFrame_def updateHeaders_def)
qed

end
